theory Spec2Isabelle
  imports Complex_Main "HOL-Library.Sublist"
begin

section \<open>JavaScript values used by the server and the chat surface\<close>

subsection \<open>Strings\<close>

text \<open>
  A JavaScript string is a sequence of UTF-16 code units; \<open>length\<close>, \<open>slice\<close> and
  \<open>trim\<close> count and inspect code units. A \<^typ>\<open>char\<close> stands for one code unit below
  256, so \<^typ>\<open>string\<close> covers the strings of that range. \<open>String.prototype.trim\<close>
  removes WhiteSpace and LineTerminator code points from both ends; the ones below 256
  are TAB, LF, VT, FF, CR, SPACE and NO-BREAK SPACE.
\<close>

definition isWhiteSpace :: "char \<Rightarrow> bool" where
  "isWhiteSpace c \<longleftrightarrow> (of_char c :: nat) \<in> {9, 10, 11, 12, 13, 32, 160}"

definition trim :: "string \<Rightarrow> string" where
  "trim s = rev (dropWhile isWhiteSpace (rev (dropWhile isWhiteSpace s)))"

text \<open>\<open>Array.prototype.join\<close> on an array of strings.\<close>

fun join :: "string \<Rightarrow> string list \<Rightarrow> string" where
  "join sep [] = []"
| "join sep [x] = x"
| "join sep (x # y # ys) = x @ sep @ join sep (y # ys)"

text \<open>
  \<open>slice(start, end)\<close> of arrays and strings: a negative index counts from the end,
  both indices are clamped to the length, and an absent \<open>end\<close> is the length.
\<close>

definition relativeIndex :: "int \<Rightarrow> nat \<Rightarrow> nat" where
  "relativeIndex k len = (if k < 0 then nat (max (int len + k) 0) else nat (min k (int len)))"

definition slice :: "int \<Rightarrow> int option \<Rightarrow> 'a list \<Rightarrow> 'a list" where
  "slice start end' xs =
     (let len = length xs;
          from = relativeIndex start len;
          to = (case end' of None \<Rightarrow> len | Some e \<Rightarrow> relativeIndex e len)
      in take (to - from) (drop from xs))"

text \<open>The decimal text of a non-negative integer, as a template literal prints it.\<close>

definition digitChar :: "nat \<Rightarrow> char" where
  "digitChar d = char_of (48 + d)"

function toString :: "nat \<Rightarrow> string" where
  "toString n = (if n < 10 then [digitChar n] else toString (n div 10) @ [digitChar (n mod 10)])"
  by pat_completeness auto
termination
  by (relation "measure id") auto

declare toString.simps [simp del]

text \<open>
  \<open>Array.from(new Set(xs))\<close>: a Set keeps its elements in insertion order and
  ignores the insertion of an element it already holds.
\<close>

definition Set_add :: "'a list \<Rightarrow> 'a \<Rightarrow> 'a list" where
  "Set_add s x = (if x \<in> set s then s else s @ [x])"

definition Array_from_Set :: "'a list \<Rightarrow> 'a list" where
  "Array_from_Set xs = foldl Set_add [] xs"

subsection \<open>Numbers read from text\<close>

text \<open>
  \<open>Number(s)\<close> on a string is StringToNumber of ECMAScript: surrounding white space is
  dropped, the empty string is 0, a decimal literal (sign, digits, fraction, exponent),
  \<open>Infinity\<close> with a sign, or an unsigned binary, octal or hexadecimal literal gives
  its value, and every other text gives NaN. \<open>Finite q\<close> carries the mathematical value
  of the literal (the engine rounds it to the nearest double afterwards; rounding is
  monotone and keeps 1, 4 and NaN as they are).
\<close>

datatype jsnum = NaN | NegInf | Finite rat | PosInf

definition digitValue :: "char \<Rightarrow> nat" where
  "digitValue c =
     (let n = of_char c in
      if 48 \<le> n \<and> n \<le> 57 then n - 48
      else if 97 \<le> n \<and> n \<le> 102 then n - 87
      else if 65 \<le> n \<and> n \<le> 70 then n - 55
      else 16)"

definition isDigit :: "nat \<Rightarrow> char \<Rightarrow> bool" where
  "isDigit radix c \<longleftrightarrow> digitValue c < radix"

definition digitsMV :: "nat \<Rightarrow> string \<Rightarrow> nat" where
  "digitsMV radix ds = foldl (\<lambda>acc c. acc * radix + digitValue c) 0 ds"

definition signedInteger :: "string \<Rightarrow> int option" where
  "signedInteger s =
     (case s of
        [] \<Rightarrow> None
      | c # r \<Rightarrow>
          if c = CHR ''+'' then
            (if r \<noteq> [] \<and> list_all (isDigit 10) r then Some (int (digitsMV 10 r)) else None)
          else if c = CHR ''-'' then
            (if r \<noteq> [] \<and> list_all (isDigit 10) r then Some (- int (digitsMV 10 r)) else None)
          else if list_all (isDigit 10) s then Some (int (digitsMV 10 s))
          else None)"

definition exponentPart :: "string \<Rightarrow> int option" where
  "exponentPart s =
     (case s of
        [] \<Rightarrow> Some 0
      | c # r \<Rightarrow> if c = CHR ''e'' \<or> c = CHR ''E'' then signedInteger r else None)"

definition pow10 :: "int \<Rightarrow> rat" where
  "pow10 e = (if 0 \<le> e then 10 ^ nat e else 1 / 10 ^ nat (- e))"

definition strUnsignedDecimalLiteral :: "string \<Rightarrow> jsnum" where
  "strUnsignedDecimalLiteral s =
     (if s = ''Infinity'' then PosInf
      else
        let ip = takeWhile (isDigit 10) s;
            r1 = dropWhile (isDigit 10) s;
            dot = (r1 \<noteq> [] \<and> hd r1 = CHR ''.'');
            fp = (if dot then takeWhile (isDigit 10) (tl r1) else []);
            r2 = (if dot then dropWhile (isDigit 10) (tl r1) else r1)
        in if ip = [] \<and> fp = [] then NaN
           else (case exponentPart r2 of
                   None \<Rightarrow> NaN
                 | Some e \<Rightarrow>
                     Finite ((of_nat (digitsMV 10 ip)
                              + of_nat (digitsMV 10 fp) / 10 ^ length fp) * pow10 e)))"

definition negate :: "jsnum \<Rightarrow> jsnum" where
  "negate x = (case x of NaN \<Rightarrow> NaN | NegInf \<Rightarrow> PosInf | Finite q \<Rightarrow> Finite (- q) | PosInf \<Rightarrow> NegInf)"

definition nonDecimalIntegerLiteral :: "string \<Rightarrow> jsnum option" where
  "nonDecimalIntegerLiteral s =
     (case s of
        z # p # ds \<Rightarrow>
          if z \<noteq> CHR ''0'' then None
          else
            (let radix = (if p = CHR ''x'' \<or> p = CHR ''X'' then 16
                          else if p = CHR ''o'' \<or> p = CHR ''O'' then 8
                          else if p = CHR ''b'' \<or> p = CHR ''B'' then 2
                          else (0::nat))
             in if radix = 0 then None
                else if ds \<noteq> [] \<and> list_all (isDigit radix) ds
                  then Some (Finite (of_nat (digitsMV radix ds)))
                else Some NaN)
      | _ \<Rightarrow> None)"

definition strNumericLiteral :: "string \<Rightarrow> jsnum" where
  "strNumericLiteral s =
     (case nonDecimalIntegerLiteral s of
        Some v \<Rightarrow> v
      | None \<Rightarrow>
          (case s of
             [] \<Rightarrow> NaN
           | c # r \<Rightarrow>
               if c = CHR ''+'' then strUnsignedDecimalLiteral r
               else if c = CHR ''-'' then negate (strUnsignedDecimalLiteral r)
               else strUnsignedDecimalLiteral s))"

definition Number :: "string \<Rightarrow> jsnum" where
  "Number s = (let t = trim s in if t = [] then Finite 0 else strNumericLiteral t)"

text \<open>\<open>Math.max\<close> of two numbers: NaN as soon as one argument is NaN.\<close>

fun Math_max :: "jsnum \<Rightarrow> jsnum \<Rightarrow> jsnum" where
  "Math_max NaN _ = NaN"
| "Math_max _ NaN = NaN"
| "Math_max PosInf _ = PosInf"
| "Math_max _ PosInf = PosInf"
| "Math_max NegInf y = y"
| "Math_max x NegInf = x"
| "Math_max (Finite a) (Finite b) = Finite (max a b)"


section \<open>The answer orchestrator (server)\<close>

subsection \<open>Configuration read from the environment\<close>

type_synonym env = "string \<rightharpoonup> string"

text \<open>\<open>x || d\<close> on an optional string: an absent and an empty string are both falsy.\<close>

definition orElse :: "string option \<Rightarrow> string \<Rightarrow> string" where
  "orElse x d = (case x of None \<Rightarrow> d | Some s \<Rightarrow> if s = [] then d else s)"

definition GOOGLE_CLOUD_PROJECT :: "env \<Rightarrow> string" where
  "GOOGLE_CLOUD_PROJECT env =
     orElse (map_option trim (env ''GOOGLE_CLOUD_PROJECT''))
       (orElse (map_option trim (env ''GCLOUD_PROJECT'')) [])"

definition GOOGLE_CLOUD_LOCATION :: "env \<Rightarrow> string" where
  "GOOGLE_CLOUD_LOCATION env =
     trim (case env ''GOOGLE_CLOUD_LOCATION'' of None \<Rightarrow> ''us-west1'' | Some s \<Rightarrow> s)"

definition VERTEX_MODEL :: "env \<Rightarrow> string" where
  "VERTEX_MODEL env = orElse (map_option trim (env ''VERTEX_MODEL'')) ''gemini-2.5-flash''"

definition VERTEX_RAG_CORPUS :: "env \<Rightarrow> string" where
  "VERTEX_RAG_CORPUS env = orElse (map_option trim (env ''VERTEX_RAG_CORPUS'')) []"

definition VERTEX_RAG_TOP_K :: "env \<Rightarrow> jsnum" where
  "VERTEX_RAG_TOP_K env =
     Math_max (Finite 1)
       (case env ''VERTEX_RAG_TOP_K'' of None \<Rightarrow> Finite 4 | Some s \<Rightarrow> Number s)"

subsection \<open>Data model\<close>

record Turn =
  role :: string
  content :: string

record RetrievedContext =
  text' :: string
  sourceUri :: string

record ChatRequest =
  message :: "string option"
  history :: "Turn list option"

record ChatResponse =
  answer :: string
  sources :: "string list"

datatype response_body = Answer ChatResponse | ErrorBody string

record http_response =
  status :: nat
  body :: response_body

text \<open>
  A thrown value: an \<open>Error\<close> with its message, or anything else. The handler's
  \<open>catch\<close> tells the two apart with \<open>instanceof Error\<close>.
\<close>

datatype thrown = Error string | NonError

subsection \<open>The external collaborators\<close>

text \<open>
  The credential library either throws or yields a token result, whose token may be
  absent. A \<open>fetch\<close> either rejects or resolves to a response with a status, a body text
  and the outcome of parsing the body as JSON. The item of the retrieval payload has an
  optional \<open>text\<close> and an optional \<open>sourceUri\<close>; the payload is
  \<open>contexts?: { contexts?: item[] }\<close>. The generation payload is
  \<open>candidates?: { content?: { parts?: { text? }[] } }[]\<close>.
\<close>

datatype auth_outcome = AuthThrows thrown | TokenResult "string option"

datatype 'p fetch_outcome = Rejected thrown | Response nat string "thrown + 'p"

record ContextItem =
  item_text :: "string option"
  item_sourceUri :: "string option"

type_synonym retrieve_payload = "ContextItem list option option"

type_synonym part = "string option"
type_synonym candidate = "part list option option"
type_synonym generate_payload = "candidate list option"

record retrieve_request =
  retrieve_endpoint :: string
  retrieve_bearer :: string
  query_text :: string
  topK :: jsnum
  ragCorpus :: string

record generate_request =
  generate_endpoint :: string
  generate_bearer :: string
  systemInstruction :: string
  contents :: "(string \<times> string) list"
  temperature :: rat

text \<open>
  The world answers each outbound call. The \<open>n\<close>-th request for an access token
  (counted from 0 within one request to the server) has the outcome \<open>auth w n\<close>.
  Every outbound call is appended to a trace, so that a property can say which calls were
  made.
\<close>

record world =
  auth :: "nat \<Rightarrow> auth_outcome"
  fetch_retrieve :: "retrieve_request \<Rightarrow> retrieve_payload fetch_outcome"
  fetch_generate :: "generate_request \<Rightarrow> generate_payload fetch_outcome"

datatype call = TokenCall | RetrieveCall retrieve_request | GenerateCall generate_request

fun isTokenCall :: "call \<Rightarrow> bool" where
  "isTokenCall TokenCall = True"
| "isTokenCall _ = False"

fun isRetrieveCall :: "call \<Rightarrow> bool" where
  "isRetrieveCall (RetrieveCall _) = True"
| "isRetrieveCall _ = False"

fun isGenerateCall :: "call \<Rightarrow> bool" where
  "isGenerateCall (GenerateCall _) = True"
| "isGenerateCall _ = False"

definition ok :: "nat \<Rightarrow> bool" where
  "ok st \<longleftrightarrow> 200 \<le> st \<and> st \<le> 299"

subsection \<open>The functions of the server\<close>

definition getAccessToken :: "world \<Rightarrow> call list \<Rightarrow> (thrown + string) \<times> call list" where
  "getAccessToken w tr =
     (case auth w (length (filter isTokenCall tr)) of
        AuthThrows e \<Rightarrow> Inl e
      | TokenResult t \<Rightarrow>
          (case t of
             None \<Rightarrow> Inl (Error ''Could not obtain Google access token. Run 'gcloud auth application-default login'.'')
           | Some accessToken \<Rightarrow>
               if accessToken = []
               then Inl (Error ''Could not obtain Google access token. Run 'gcloud auth application-default login'.'')
               else Inr accessToken),
      tr @ [TokenCall])"

definition requireVertexConfig :: "env \<Rightarrow> thrown + unit" where
  "requireVertexConfig env =
     (if GOOGLE_CLOUD_PROJECT env = [] then Inl (Error ''GOOGLE_CLOUD_PROJECT is required.'')
      else if GOOGLE_CLOUD_LOCATION env = [] then Inl (Error ''GOOGLE_CLOUD_LOCATION is required.'')
      else if VERTEX_MODEL env = [] then Inl (Error ''VERTEX_MODEL is required.'')
      else if VERTEX_RAG_CORPUS env = [] then Inl (Error ''VERTEX_RAG_CORPUS is required.'')
      else Inr ())"

definition retrieveRequest :: "env \<Rightarrow> string \<Rightarrow> string \<Rightarrow> jsnum \<Rightarrow> retrieve_request" where
  "retrieveRequest env accessToken query k =
     \<lparr>retrieve_endpoint =
        ''https://'' @ GOOGLE_CLOUD_LOCATION env @ ''-aiplatform.googleapis.com/v1''
        @ ''/projects/'' @ GOOGLE_CLOUD_PROJECT env @ ''/locations/''
        @ GOOGLE_CLOUD_LOCATION env @ '':retrieveContexts'',
      retrieve_bearer = accessToken,
      query_text = query,
      topK = k,
      ragCorpus = VERTEX_RAG_CORPUS env\<rparr>"

definition mapItem :: "ContextItem \<Rightarrow> RetrievedContext" where
  "mapItem item =
     \<lparr>text' = (case item_text item of None \<Rightarrow> [] | Some t \<Rightarrow> trim t),
      sourceUri = (case item_sourceUri item of None \<Rightarrow> ''unknown-source'' | Some u \<Rightarrow> trim u)\<rparr>"

definition mapContexts :: "retrieve_payload \<Rightarrow> RetrievedContext list" where
  "mapContexts payload =
     (let contexts = (case payload of Some (Some items) \<Rightarrow> items | _ \<Rightarrow> [])
      in filter (\<lambda>item. length (text' item) > 0) (map mapItem contexts))"

definition retrieveFromVertexCorpus ::
  "env \<Rightarrow> world \<Rightarrow> string \<Rightarrow> jsnum \<Rightarrow> call list \<Rightarrow> (thrown + RetrievedContext list) \<times> call list" where
  "retrieveFromVertexCorpus env w query k tr =
     (case requireVertexConfig env of
        Inl e \<Rightarrow> (Inl e, tr)
      | Inr _ \<Rightarrow>
          (case getAccessToken w tr of
             (Inl e, tr1) \<Rightarrow> (Inl e, tr1)
           | (Inr accessToken, tr1) \<Rightarrow>
               (let req = retrieveRequest env accessToken query k;
                    tr2 = tr1 @ [RetrieveCall req]
                in case fetch_retrieve w req of
                     Rejected e \<Rightarrow> (Inl e, tr2)
                   | Response st details json \<Rightarrow>
                       if \<not> ok st
                       then (Inl (Error (''Vertex retrieveContexts failed: '' @ toString st
                                         @ '' '' @ details)), tr2)
                       else (case json of
                               Inl e \<Rightarrow> (Inl e, tr2)
                             | Inr payload \<Rightarrow> (Inr (mapContexts payload), tr2)))))"

definition noContextMessage :: string where
  "noContextMessage =
     ''I could not retrieve relevant context from the configured Vertex corpus. Try rephrasing your question.''"

definition noModelNotice :: string where
  "noModelNotice =
     ''No model response was generated, so this answer is extractive from corpus matches:''"

definition blankLine :: string where
  "blankLine = [CHR 0x0A, CHR 0x0A]"

definition previewLine :: "nat \<times> RetrievedContext \<Rightarrow> string" where
  "previewLine = (\<lambda>(idx, chunk).
     ''('' @ toString (idx + 1) @ '') '' @ trim (slice 0 (Some 280) (text' chunk)) @ ''...'')"

definition fallbackAnswer :: "string \<Rightarrow> RetrievedContext list \<Rightarrow> string" where
  "fallbackAnswer question ctxs =
     (if length ctxs = 0 then noContextMessage
      else
        let preview = join blankLine (map previewLine (enumerate 0 ctxs))
        in join blankLine [''Question: '' @ question, noModelNotice, preview])"

definition vertexTurn :: "Turn \<Rightarrow> string \<times> string" where
  "vertexTurn turn = (if role turn = ''assistant'' then ''model'' else ''user'', content turn)"

definition generateRequest ::
  "env \<Rightarrow> string \<Rightarrow> string \<Rightarrow> Turn list \<Rightarrow> string \<Rightarrow> generate_request" where
  "generateRequest env accessToken msg hist promptContext =
     \<lparr>generate_endpoint =
        ''https://'' @ GOOGLE_CLOUD_LOCATION env @ ''-aiplatform.googleapis.com/v1''
        @ ''/projects/'' @ GOOGLE_CLOUD_PROJECT env @ ''/locations/''
        @ GOOGLE_CLOUD_LOCATION env
        @ ''/publishers/google/models/'' @ VERTEX_MODEL env @ '':generateContent'',
      generate_bearer = accessToken,
      systemInstruction =
        ''You are a RAG assistant. Answer using the provided context. If context is insufficient, say what is missing.''
        @ blankLine @ ''Context from the Vertex RAG corpus:'' @ [CHR 0x0A] @ promptContext,
      contents = map vertexTurn hist @ [(''user'', msg)],
      temperature = 2 / 10\<rparr>"

text \<open>
  \<open>payload.candidates?.[0]?.content?.parts?.map(p => p.text ?? "").join("").trim()\<close>:
  absent as soon as a link of the chain is.
\<close>

definition candidateText :: "generate_payload \<Rightarrow> string option" where
  "candidateText payload =
     (case payload of
        None \<Rightarrow> None
      | Some [] \<Rightarrow> None
      | Some (c # _) \<Rightarrow>
          (case c of
             Some (Some parts) \<Rightarrow>
               Some (trim (join [] (map (\<lambda>p. case p of None \<Rightarrow> [] | Some t \<Rightarrow> t) parts)))
           | _ \<Rightarrow> None))"

definition generateWithVertex ::
  "env \<Rightarrow> world \<Rightarrow> string \<Rightarrow> Turn list \<Rightarrow> string \<Rightarrow> call list \<Rightarrow> (thrown + string) \<times> call list" where
  "generateWithVertex env w msg hist promptContext tr =
     (case requireVertexConfig env of
        Inl e \<Rightarrow> (Inl e, tr)
      | Inr _ \<Rightarrow>
          (case getAccessToken w tr of
             (Inl e, tr1) \<Rightarrow> (Inl e, tr1)
           | (Inr accessToken, tr1) \<Rightarrow>
               (let req = generateRequest env accessToken msg hist promptContext;
                    tr2 = tr1 @ [GenerateCall req]
                in case fetch_generate w req of
                     Rejected e \<Rightarrow> (Inl e, tr2)
                   | Response st details json \<Rightarrow>
                       if \<not> ok st
                       then (Inl (Error (''Vertex generateContent failed: '' @ toString st
                                         @ '' '' @ details)), tr2)
                       else (case json of
                               Inl e \<Rightarrow> (Inl e, tr2)
                             | Inr payload \<Rightarrow>
                                 (Inr (orElse (candidateText payload) ''I do not have an answer.''),
                                  tr2)))))"

subsection \<open>The handler of POST /api/chat\<close>

definition chatMessage :: "ChatRequest \<Rightarrow> string" where
  "chatMessage req = trim (case message req of None \<Rightarrow> [] | Some m \<Rightarrow> m)"

definition chatHistory :: "ChatRequest \<Rightarrow> Turn list" where
  "chatHistory req = (case history req of Some h \<Rightarrow> slice (- 8) None h | None \<Rightarrow> [])"

definition chunkLine :: "nat \<times> RetrievedContext \<Rightarrow> string" where
  "chunkLine = (\<lambda>(i, x). ''[Chunk '' @ toString (i + 1) @ ''] '' @ text' x)"

text \<open>The body of the handler's \<open>try\<close> block: a response, or the value thrown.\<close>

definition chatTry :: "env \<Rightarrow> world \<Rightarrow> ChatRequest \<Rightarrow> (thrown + http_response) \<times> call list" where
  "chatTry env w req =
     (let msg = chatMessage req in
      if msg = [] then (Inr \<lparr>status = 400, body = ErrorBody ''message is required''\<rparr>, [])
      else
        (let hist = chatHistory req in
         (case retrieveFromVertexCorpus env w msg (VERTEX_RAG_TOP_K env) [] of
            (Inl e, tr) \<Rightarrow> (Inl e, tr)
          | (Inr ctxs, tr) \<Rightarrow>
              (let srcs = Array_from_Set (map sourceUri ctxs) in
               if length ctxs = 0
               then (Inr \<lparr>status = 200,
                          body = Answer \<lparr>answer = fallbackAnswer msg ctxs, sources = srcs\<rparr>\<rparr>, tr)
               else
                 (let promptContext = join blankLine (map chunkLine (enumerate 0 ctxs)) in
                  (case generateWithVertex env w msg hist promptContext tr of
                     (Inl e, tr') \<Rightarrow> (Inl e, tr')
                   | (Inr a, tr') \<Rightarrow>
                       (Inr \<lparr>status = 200, body = Answer \<lparr>answer = a, sources = srcs\<rparr>\<rparr>,
                        tr')))))))"

definition chatPost :: "env \<Rightarrow> world \<Rightarrow> ChatRequest \<Rightarrow> http_response \<times> call list" where
  "chatPost env w req =
     (case chatTry env w req of
        (Inr res, tr) \<Rightarrow> (res, tr)
      | (Inl error, tr) \<Rightarrow>
          (\<lparr>status = 500,
            body = ErrorBody (case error of Error m \<Rightarrow> m | NonError \<Rightarrow> ''unknown error'')\<rparr>, tr))"

section \<open>The chat surface (client)\<close>

text \<open>
  A message of the transcript is a turn with an identifier and optional sources. The
  component's state is the transcript, the input field, the loading flag and the
  reference to the controller that can cancel the request in flight.
\<close>

record Message = Turn +
  id' :: string
  msg_sources :: "string list option"

record AbortController =
  aborted :: bool

record app_state =
  messages :: "Message list"
  input :: string
  loading :: bool
  abortRef :: "AbortController option"

definition starter :: string where
  "starter = ''Ask anything about the attached Vertex AI RAG notes.''"

definition transcript :: "Message list \<Rightarrow> Message list" where
  "transcript ms = filter (\<lambda>m. role m \<noteq> ''assistant'' \<or> content m \<noteq> starter) ms"

text \<open>
  \<open>onSubmit\<close> up to its \<open>await\<close>: the guard returns early (no request, state
  unchanged); otherwise the user message is appended, the input cleared, loading set, a
  fresh controller stored, and the request leaves. \<open>uid\<close> is the identifier that
  \<open>crypto.randomUUID()\<close> gives.
\<close>

definition onSubmit_start :: "app_state \<Rightarrow> string \<Rightarrow> (app_state \<times> ChatRequest) option" where
  "onSubmit_start st uid =
     (let trimmed = trim (input st) in
      if trimmed = [] \<or> loading st then None
      else
        (let userMessage = \<lparr>role = ''user'', content = trimmed, id' = uid, msg_sources = None\<rparr>;
             nextMessages = messages st @ [userMessage]
         in Some (st\<lparr>messages := nextMessages, input := [], loading := True,
                     abortRef := Some \<lparr>aborted = False\<rparr>\<rparr>,
                  \<lparr>message = Some trimmed,
                   history = Some (map (\<lambda>m. \<lparr>role = role m, content = content m\<rparr>)
                                    (transcript (messages st)))\<rparr>)))"

text \<open>
  The rest of the \<open>try\<close> block, given how the \<open>fetch\<close> ended: it rejects (network
  error or abort), or resolves with a status and the outcome of reading the body as JSON.
\<close>

definition onSubmit_try :: "ChatResponse fetch_outcome \<Rightarrow> thrown + ChatResponse" where
  "onSubmit_try outcome =
     (case outcome of
        Rejected e \<Rightarrow> Inl e
      | Response st details json \<Rightarrow>
          if \<not> ok st then Inl (Error (''Request failed: '' @ toString st)) else json)"

definition onSubmit_settle :: "app_state \<Rightarrow> ChatResponse fetch_outcome \<Rightarrow> string \<Rightarrow> app_state" where
  "onSubmit_settle st outcome uid =
     (let st1 =
        (case onSubmit_try outcome of
           Inr data \<Rightarrow>
             st\<lparr>messages := messages st @
                  [\<lparr>role = ''assistant'', content = answer data, id' = uid,
                    msg_sources = Some (sources data)\<rparr>]\<rparr>
         | Inl error \<Rightarrow>
             (let txt = (case error of Error m \<Rightarrow> m | NonError \<Rightarrow> ''Unknown error'')
              in st\<lparr>messages := messages st @
                      [\<lparr>role = ''assistant'',
                        content = ''I could not process that request. '' @ txt,
                        id' = uid, msg_sources = None\<rparr>]\<rparr>))
      in st1\<lparr>loading := False, abortRef := None\<rparr>)"

definition onStop :: "app_state \<Rightarrow> app_state" where
  "onStop st =
     (case abortRef st of
        None \<Rightarrow> st
      | Some c \<Rightarrow> st\<lparr>abortRef := Some (c\<lparr>aborted := True\<rparr>)\<rparr>)"

text \<open>
  What the user can do while the request is in flight: type, press stop, or try to
  submit again (with the identifier the new message would get).
\<close>

datatype ui_event = Typed string | Stop | Submit string

fun ui_step :: "app_state \<Rightarrow> ui_event \<Rightarrow> app_state" where
  "ui_step st (Typed s) = st\<lparr>input := s\<rparr>"
| "ui_step st Stop = onStop st"
| "ui_step st (Submit uid) = (case onSubmit_start st uid of None \<Rightarrow> st | Some (st', _) \<Rightarrow> st')"

text \<open>
  One whole submission: the start, the events while the request is in flight, and the
  settling with the outcome of the \<open>fetch\<close>.
\<close>

definition onSubmit ::
  "app_state \<Rightarrow> string \<Rightarrow> string \<Rightarrow> ui_event list \<Rightarrow> ChatResponse fetch_outcome \<Rightarrow> app_state" where
  "onSubmit st uid1 uid2 evs outcome =
     (case onSubmit_start st uid1 of
        None \<Rightarrow> st
      | Some (st1, req) \<Rightarrow> onSubmit_settle (foldl ui_step st1 evs) outcome uid2)"

section \<open>Notions used to state the properties\<close>

text \<open>The position at which a value first occurs in a list (its length when it does not).\<close>

definition firstIndex :: "'a \<Rightarrow> 'a list \<Rightarrow> nat" where
  "firstIndex x xs = length (takeWhile (\<lambda>y. y \<noteq> x) xs)"

text \<open>
  The extractive template as the specification words it: \<open>Question: <q>\<close>, the notice,
  and one snippet per context, numbered \<open>(i)\<close> from 1, each the context text cut by
  \<open>shorten\<close> and followed by an ellipsis; the pieces are separated by blank lines. The
  specification's own shortening keeps the first 280 characters.
\<close>

definition numberedSnippets :: "(string \<Rightarrow> string) \<Rightarrow> RetrievedContext list \<Rightarrow> string list" where
  "numberedSnippets shorten ctxs =
     map (\<lambda>i. ''('' @ toString (Suc i) @ '') '' @ shorten (text' (ctxs ! i)) @ ''...'') [0..<length ctxs]"

definition fallbackTemplate :: "(string \<Rightarrow> string) \<Rightarrow> string \<Rightarrow> RetrievedContext list \<Rightarrow> string" where
  "fallbackTemplate shorten question ctxs =
     ''Question: '' @ question @ blankLine @ noModelNotice @ blankLine
     @ join blankLine (numberedSnippets shorten ctxs)"

definition truncate280 :: "string \<Rightarrow> string" where
  "truncate280 t = take 280 t"

subsection \<open>Example configurations and collaborators\<close>

definition exampleEnv :: env where
  "exampleEnv = [''GOOGLE_CLOUD_PROJECT'' \<mapsto> ''farmersmark-agriculture'',
                 ''VERTEX_RAG_CORPUS'' \<mapsto> ''projects/1/locations/us-west1/ragCorpora/2'']"

definition exampleItems :: "ContextItem list" where
  "exampleItems =
     [\<lparr>item_text = Some '' Irrigate twice weekly. '', item_sourceUri = Some ''doc1.pdf ''\<rparr>,
      \<lparr>item_text = Some ''Mulch after planting.'', item_sourceUri = None\<rparr>,
      \<lparr>item_text = Some ''   '', item_sourceUri = Some ''doc2.pdf''\<rparr>,
      \<lparr>item_text = None, item_sourceUri = Some ''doc3.pdf''\<rparr>,
      \<lparr>item_text = Some ''Water early.'', item_sourceUri = Some ''doc1.pdf''\<rparr>]"

definition exampleWorld ::
  "retrieve_payload fetch_outcome \<Rightarrow> generate_payload fetch_outcome \<Rightarrow> world" where
  "exampleWorld r g =
     \<lparr>auth = (\<lambda>n. TokenResult (Some ''token'')),
      fetch_retrieve = (\<lambda>req. r),
      fetch_generate = (\<lambda>req. g)\<rparr>"


definition exampleState :: app_state where
  "exampleState =
     \<lparr>messages = [\<lparr>role = ''assistant'', content = starter, id' = ''m0'', msg_sources = None\<rparr>],
      input = '' When to irrigate? '', loading = False, abortRef = None\<rparr>"

section \<open>Properties\<close>

subsection \<open>Shapes of the two upstream calls\<close>

lemma retrieve_Inr:
  assumes "retrieveFromVertexCorpus env w q k tr = (Inr ctxs, tr')"
  shows "\<exists>tok st details payload.
           tr' = tr @ [TokenCall, RetrieveCall (retrieveRequest env tok q k)] \<and>
           fetch_retrieve w (retrieveRequest env tok q k) = Response st details (Inr payload) \<and>
           ok st \<and> ctxs = mapContexts payload"
  using assms
  by (auto simp: retrieveFromVertexCorpus_def getAccessToken_def Let_def
      split: sum.splits prod.splits auth_outcome.splits option.splits fetch_outcome.splits if_splits)

lemma retrieve_Inl:
  assumes "retrieveFromVertexCorpus env w q k tr = (Inl e, tr')"
  shows "tr' = tr \<or> tr' = tr @ [TokenCall] \<or>
         (\<exists>tok. tr' = tr @ [TokenCall, RetrieveCall (retrieveRequest env tok q k)] \<and>
            (fetch_retrieve w (retrieveRequest env tok q k) = Rejected e \<or>
             (\<exists>st details json.
                fetch_retrieve w (retrieveRequest env tok q k) = Response st details json \<and>
                \<not> ok st \<and>
                e = Error (''Vertex retrieveContexts failed: '' @ toString st @ '' '' @ details)) \<or>
             (\<exists>st details.
                fetch_retrieve w (retrieveRequest env tok q k) = Response st details (Inl e) \<and>
                ok st)))"
  using assms
  by (auto simp: retrieveFromVertexCorpus_def getAccessToken_def Let_def
      split: sum.splits prod.splits auth_outcome.splits option.splits fetch_outcome.splits if_splits)

lemma generate_Inr:
  assumes "generateWithVertex env w msg hist pc tr = (Inr a, tr')"
  shows "\<exists>tok st details payload.
           tr' = tr @ [TokenCall, GenerateCall (generateRequest env tok msg hist pc)] \<and>
           fetch_generate w (generateRequest env tok msg hist pc) = Response st details (Inr payload) \<and>
           ok st \<and> a = orElse (candidateText payload) ''I do not have an answer.''"
  using assms
  by (auto simp: generateWithVertex_def getAccessToken_def Let_def
      split: sum.splits prod.splits auth_outcome.splits option.splits fetch_outcome.splits if_splits)

lemma generate_Inl:
  assumes "generateWithVertex env w msg hist pc tr = (Inl e, tr')"
  shows "tr' = tr \<or> tr' = tr @ [TokenCall] \<or>
         (\<exists>tok. tr' = tr @ [TokenCall, GenerateCall (generateRequest env tok msg hist pc)] \<and>
            (fetch_generate w (generateRequest env tok msg hist pc) = Rejected e \<or>
             (\<exists>st details json.
                fetch_generate w (generateRequest env tok msg hist pc) = Response st details json \<and>
                \<not> ok st \<and>
                e = Error (''Vertex generateContent failed: '' @ toString st @ '' '' @ details)) \<or>
             (\<exists>st details.
                fetch_generate w (generateRequest env tok msg hist pc) = Response st details (Inl e) \<and>
                ok st)))"
  using assms
  by (auto simp: generateWithVertex_def getAccessToken_def Let_def
      split: sum.splits prod.splits auth_outcome.splits option.splits fetch_outcome.splits if_splits)

subsection \<open>Validation of the message\<close>

text \<open>
  Claim C4. When the \<open>message\<close> field of the request body is absent, or trims to the
  empty string, the handler answers with status 400 and the error body
  \<open>message is required\<close>, and its trace of outbound calls is empty: no token request, no
  retrieval call and no generation call.
\<close>

theorem chat_rejects_empty_message:
  assumes "message req = None \<or> (\<exists>m. message req = Some m \<and> trim m = [])"
  shows "chatPost env w req = (\<lparr>status = 400, body = ErrorBody ''message is required''\<rparr>, [])"
proof -
  have "trim [] = []" by (simp add: trim_def)
  with assms have "chatMessage req = []"
    by (auto simp: chatMessage_def)
  then show ?thesis
    by (simp add: chatPost_def chatTry_def)
qed

theorem chat_rejects_empty_message_witness:
  "chatPost exampleEnv (exampleWorld (Rejected NonError) (Rejected NonError))
     \<lparr>message = Some ''  '', history = None\<rparr>
   = (\<lparr>status = 400, body = ErrorBody ''message is required''\<rparr>, [])
   \<and> chatPost exampleEnv (exampleWorld (Rejected NonError) (Rejected NonError))
     \<lparr>message = None, history = None\<rparr>
   = (\<lparr>status = 400, body = ErrorBody ''message is required''\<rparr>, [])"
proof -
  have ws: "trim ''  '' = []" by code_simp
  show ?thesis
    using chat_rejects_empty_message [of "\<lparr>message = Some ''  '', history = None\<rparr>"]
      chat_rejects_empty_message [of "\<lparr>message = None, history = None\<rparr>"] ws
    by simp
qed

subsection \<open>Paths through the handler\<close>

lemma Array_from_Set_Nil: "Array_from_Set [] = []"
  by (simp add: Array_from_Set_def)

lemma orElse_nonempty: "d \<noteq> [] \<Longrightarrow> orElse x d \<noteq> []"
  by (simp add: orElse_def split: option.splits)

lemma orElse_empty: "x = None \<or> x = Some [] \<Longrightarrow> orElse x d = d"
  by (auto simp: orElse_def)

lemma join_empty_sep: "join [] xs = concat xs"
  by (induction "[] :: string" xs rule: join.induct) simp_all

text \<open>The outcomes of the handler, one per path through it.\<close>

lemma chatPost_outcomes:
  "(chatMessage req = [] \<and>
      chatPost env w req = (\<lparr>status = 400, body = ErrorBody ''message is required''\<rparr>, []))
   \<or> (\<exists>e tr. chatMessage req \<noteq> [] \<and>
        retrieveFromVertexCorpus env w (chatMessage req) (VERTEX_RAG_TOP_K env) [] = (Inl e, tr) \<and>
        chatPost env w req = (\<lparr>status = 500, body = ErrorBody (case e of Error m \<Rightarrow> m | NonError \<Rightarrow> ''unknown error'')\<rparr>, tr))
   \<or> (\<exists>tr. chatMessage req \<noteq> [] \<and>
        retrieveFromVertexCorpus env w (chatMessage req) (VERTEX_RAG_TOP_K env) [] = (Inr [], tr) \<and>
        chatPost env w req =
          (\<lparr>status = 200, body = Answer \<lparr>answer = noContextMessage, sources = []\<rparr>\<rparr>, tr))
   \<or> (\<exists>ctxs tr e tr'. chatMessage req \<noteq> [] \<and> ctxs \<noteq> [] \<and>
        retrieveFromVertexCorpus env w (chatMessage req) (VERTEX_RAG_TOP_K env) [] = (Inr ctxs, tr) \<and>
        generateWithVertex env w (chatMessage req) (chatHistory req)
          (join blankLine (map chunkLine (enumerate 0 ctxs))) tr = (Inl e, tr') \<and>
        chatPost env w req = (\<lparr>status = 500, body = ErrorBody (case e of Error m \<Rightarrow> m | NonError \<Rightarrow> ''unknown error'')\<rparr>, tr'))
   \<or> (\<exists>ctxs tr a tr'. chatMessage req \<noteq> [] \<and> ctxs \<noteq> [] \<and>
        retrieveFromVertexCorpus env w (chatMessage req) (VERTEX_RAG_TOP_K env) [] = (Inr ctxs, tr) \<and>
        generateWithVertex env w (chatMessage req) (chatHistory req)
          (join blankLine (map chunkLine (enumerate 0 ctxs))) tr = (Inr a, tr') \<and>
        chatPost env w req =
          (\<lparr>status = 200,
            body = Answer \<lparr>answer = a, sources = Array_from_Set (map sourceUri ctxs)\<rparr>\<rparr>, tr'))"
proof (cases "chatMessage req = []")
  case True
  then show ?thesis by (simp add: chatPost_def chatTry_def)
next
  case False
  obtain r tr where rt:
    "retrieveFromVertexCorpus env w (chatMessage req) (VERTEX_RAG_TOP_K env) [] = (r, tr)"
    by (cases "retrieveFromVertexCorpus env w (chatMessage req) (VERTEX_RAG_TOP_K env) []")
  show ?thesis
  proof (cases r)
    case (Inl e)
    with False rt show ?thesis
      by (simp add: chatPost_def chatTry_def)
  next
    case (Inr ctxs)
    show ?thesis
    proof (cases "ctxs = []")
      case True
      with False rt Inr show ?thesis
        by (simp add: chatPost_def chatTry_def fallbackAnswer_def Array_from_Set_Nil)
    next
      case ne: False
      obtain r' tr' where gt:
        "generateWithVertex env w (chatMessage req) (chatHistory req)
           (join blankLine (map chunkLine (enumerate 0 ctxs))) tr = (r', tr')"
        by (cases "generateWithVertex env w (chatMessage req) (chatHistory req)
           (join blankLine (map chunkLine (enumerate 0 ctxs))) tr")
      show ?thesis
      proof (cases r')
        case (Inl e)
        with False rt Inr ne gt show ?thesis
          by (simp add: chatPost_def chatTry_def Let_def)
      next
        case (Inr a)
        with False rt \<open>r = Inr ctxs\<close> ne gt show ?thesis
          by (simp add: chatPost_def chatTry_def Let_def)
      qed
    qed
  qed
qed


subsection \<open>The fallback without context\<close>

text \<open>
  Claim C1. For a request whose message is non-empty after trimming, when the retrieval
  returns zero contexts, the handler answers with status 200, the fixed no-context
  message as \<open>answer\<close> and the empty list as \<open>sources\<close>, and no call of its trace is a
  call of the generation collaborator.
\<close>

theorem no_context_fallback:
  assumes "message req = Some m" and "trim m \<noteq> []"
    and "fst (retrieveFromVertexCorpus env w (trim m) (VERTEX_RAG_TOP_K env) []) = Inr []"
  shows "fst (chatPost env w req) =
           \<lparr>status = 200,
            body = Answer \<lparr>answer = ''I could not retrieve relevant context from the configured Vertex corpus. Try rephrasing your question.'',
                           sources = []\<rparr>\<rparr>
         \<and> filter isGenerateCall (snd (chatPost env w req)) = []"
proof -
  have msg: "chatMessage req = trim m"
    using assms(1) by (simp add: chatMessage_def)
  obtain tr where rt:
    "retrieveFromVertexCorpus env w (chatMessage req) (VERTEX_RAG_TOP_K env) [] = (Inr [], tr)"
    using assms(3) msg by (metis prod.collapse)
  have post: "chatPost env w req =
      (\<lparr>status = 200, body = Answer \<lparr>answer = noContextMessage, sources = []\<rparr>\<rparr>, tr)"
    using chatPost_outcomes [of req env w] rt assms(2) msg by auto
  have "filter isGenerateCall tr = []"
    using retrieve_Inr [OF rt] by auto
  with post show ?thesis
    by (simp add: noContextMessage_def)
qed

theorem no_context_fallback_witness:
  "fst (chatPost exampleEnv (exampleWorld (Response 200 ''{}'' (Inr (Some (Some [])))) (Rejected NonError))
          \<lparr>message = Some '' hi '', history = None\<rparr>) =
     \<lparr>status = 200,
      body = Answer \<lparr>answer = ''I could not retrieve relevant context from the configured Vertex corpus. Try rephrasing your question.'',
                     sources = []\<rparr>\<rparr>
   \<and> filter isGenerateCall
        (snd (chatPost exampleEnv (exampleWorld (Response 200 ''{}'' (Inr (Some (Some [])))) (Rejected NonError))
               \<lparr>message = Some '' hi '', history = None\<rparr>)) = []"
proof -
  have h1: "message \<lparr>message = Some '' hi '', history = None\<rparr> = Some '' hi ''" by simp
  have h2: "trim '' hi '' \<noteq> []" by code_simp
  have h3: "fst (retrieveFromVertexCorpus exampleEnv
                  (exampleWorld (Response 200 ''{}'' (Inr (Some (Some [])))) (Rejected NonError))
                  (trim '' hi '') (VERTEX_RAG_TOP_K exampleEnv) []) = Inr []"
    by code_simp
  show ?thesis
    by (rule no_context_fallback [OF h1 h2 h3])
qed

subsection \<open>A successful answer is never empty\<close>

text \<open>
  Claim C10. Every response with status 200 carries an answer that is not the empty
  string. When the generation call succeeded and the text parts of its first candidate,
  concatenated, trim to the empty string, the answer is \<open>I do not have an answer.\<close>
\<close>

theorem successful_answer_nonempty:
  "(status (fst (chatPost env w req)) = 200 \<longrightarrow>
      (\<exists>r. body (fst (chatPost env w req)) = Answer r \<and> answer r \<noteq> []))
   \<and> (GenerateCall g \<in> set (snd (chatPost env w req)) \<and>
      fetch_generate w g = Response st details (Inr (Some (Some (Some parts) # cs))) \<and> ok st \<and>
      trim (concat (map (\<lambda>p. case p of None \<Rightarrow> [] | Some t \<Rightarrow> t) parts)) = [] \<longrightarrow>
      status (fst (chatPost env w req)) = 200 \<and>
      (\<exists>r. body (fst (chatPost env w req)) = Answer r \<and> answer r = ''I do not have an answer.''))"
proof -
  have A: "status (fst (chatPost env w req)) = 200 \<longrightarrow>
      (\<exists>r. body (fst (chatPost env w req)) = Answer r \<and> answer r \<noteq> [])"
    using chatPost_outcomes [of req env w]
    by (auto simp: noContextMessage_def orElse_nonempty dest!: generate_Inr)
  have B: "status (fst (chatPost env w req)) = 200 \<and>
      (\<exists>r. body (fst (chatPost env w req)) = Answer r \<and> answer r = ''I do not have an answer.'')"
    if g: "GenerateCall g \<in> set (snd (chatPost env w req))"
      and f: "fetch_generate w g = Response st details (Inr (Some (Some (Some parts) # cs)))"
      and okst: "ok st"
      and e: "trim (concat (map (\<lambda>p. case p of None \<Rightarrow> [] | Some t \<Rightarrow> t) parts)) = []"
  proof -
    have ct: "candidateText (Some (Some (Some parts) # cs)) = Some []"
      using e by (simp add: candidateText_def join_empty_sep)
    from chatPost_outcomes [of req env w] show ?thesis
    proof (elim disjE exE conjE)
      assume "chatPost env w req = (\<lparr>status = 400, body = ErrorBody ''message is required''\<rparr>, [])"
      with g show ?thesis by simp
    next
      fix e' tr
      assume "retrieveFromVertexCorpus env w (chatMessage req) (VERTEX_RAG_TOP_K env) [] = (Inl e', tr)"
        and "chatPost env w req = (\<lparr>status = 500, body = ErrorBody (case e' of Error m \<Rightarrow> m | NonError \<Rightarrow> ''unknown error'')\<rparr>, tr)"
      with g show ?thesis by (auto dest!: retrieve_Inl)
    next
      fix tr
      assume "retrieveFromVertexCorpus env w (chatMessage req) (VERTEX_RAG_TOP_K env) [] = (Inr [], tr)"
        and "chatPost env w req =
          (\<lparr>status = 200, body = Answer \<lparr>answer = noContextMessage, sources = []\<rparr>\<rparr>, tr)"
      with g show ?thesis by (auto dest!: retrieve_Inr)
    next
      fix ctxs tr e' tr'
      assume r: "retrieveFromVertexCorpus env w (chatMessage req) (VERTEX_RAG_TOP_K env) [] = (Inr ctxs, tr)"
        and ge: "generateWithVertex env w (chatMessage req) (chatHistory req)
          (join blankLine (map chunkLine (enumerate 0 ctxs))) tr = (Inl e', tr')"
        and p: "chatPost env w req = (\<lparr>status = 500, body = ErrorBody (case e' of Error m \<Rightarrow> m | NonError \<Rightarrow> ''unknown error'')\<rparr>, tr')"
      from retrieve_Inr [OF r] generate_Inl [OF ge] g p f okst
      show ?thesis by auto
    next
      fix ctxs tr a tr'
      assume r: "retrieveFromVertexCorpus env w (chatMessage req) (VERTEX_RAG_TOP_K env) [] = (Inr ctxs, tr)"
        and ge: "generateWithVertex env w (chatMessage req) (chatHistory req)
          (join blankLine (map chunkLine (enumerate 0 ctxs))) tr = (Inr a, tr')"
        and p: "chatPost env w req =
          (\<lparr>status = 200,
            body = Answer \<lparr>answer = a, sources = Array_from_Set (map sourceUri ctxs)\<rparr>\<rparr>, tr')"
      from retrieve_Inr [OF r] generate_Inr [OF ge] g p f okst ct
      show ?thesis by (auto simp: orElse_empty)
    qed
  qed
  from A B show ?thesis by blast
qed


theorem successful_answer_nonempty_witness:
  "status (fst (chatPost exampleEnv
      (exampleWorld (Response 200 ''{}'' (Inr (Some (Some exampleItems))))
                    (Response 200 ''{}'' (Inr (Some [Some (Some [Some '' '', None])]))))
      \<lparr>message = Some ''hi'', history = None\<rparr>)) = 200
   \<and> (\<exists>r. body (fst (chatPost exampleEnv
      (exampleWorld (Response 200 ''{}'' (Inr (Some (Some exampleItems))))
                    (Response 200 ''{}'' (Inr (Some [Some (Some [Some '' '', None])]))))
      \<lparr>message = Some ''hi'', history = None\<rparr>)) = Answer r
        \<and> answer r = ''I do not have an answer.'' \<and> answer r \<noteq> [])"
proof -
  let ?W = "exampleWorld (Response 200 ''{}'' (Inr (Some (Some exampleItems))))
                    (Response 200 ''{}'' (Inr (Some [Some (Some [Some '' '', None])])))"
  let ?R = "\<lparr>message = Some ''hi'', history = None\<rparr>"
  have "list_ex isGenerateCall (snd (chatPost exampleEnv ?W ?R))"
    by code_simp
  then obtain c where c: "c \<in> set (snd (chatPost exampleEnv ?W ?R))" "isGenerateCall c"
    by (auto simp: list_ex_iff)
  from c(2) obtain g where "c = GenerateCall g"
    by (cases c) simp_all
  with c(1) have g: "GenerateCall g \<in> set (snd (chatPost exampleEnv ?W ?R))"
    by simp
  have f: "fetch_generate ?W g = Response 200 ''{}'' (Inr (Some [Some (Some [Some '' '', None])]))"
    by (simp add: exampleWorld_def)
  have o: "ok 200" by (simp add: ok_def)
  have e: "trim (concat (map (\<lambda>p. case p of None \<Rightarrow> [] | Some t \<Rightarrow> t) [Some '' '', None])) = []"
    by code_simp
  from successful_answer_nonempty [of exampleEnv ?W ?R g 200 "''{}''" "[Some '' '', None]" "[]"] g f o e
  show ?thesis by auto
qed

subsection \<open>Sources: each identifier once, in first-seen order\<close>

lemma Array_from_Set_snoc: "Array_from_Set (xs @ [x]) = Set_add (Array_from_Set xs) x"
  by (simp add: Array_from_Set_def)

lemma set_Array_from_Set: "set (Array_from_Set xs) = set xs"
  by (induction xs rule: rev_induct)
     (auto simp: Array_from_Set_snoc Array_from_Set_Nil Set_add_def)

lemma distinct_Array_from_Set: "distinct (Array_from_Set xs)"
  by (induction xs rule: rev_induct)
     (auto simp: Array_from_Set_snoc Array_from_Set_Nil Set_add_def)

lemma firstIndex_append: "x \<in> set xs \<Longrightarrow> firstIndex x (xs @ ys) = firstIndex x xs"
  by (induction xs) (auto simp: firstIndex_def)

lemma firstIndex_less: "x \<in> set xs \<Longrightarrow> firstIndex x xs < length xs"
  by (induction xs) (auto simp: firstIndex_def)

lemma firstIndex_new: "x \<notin> set xs \<Longrightarrow> firstIndex x (xs @ [x]) = length xs"
  by (induction xs) (auto simp: firstIndex_def)

lemma first_seen_order:
  "sorted_wrt (\<lambda>a b. firstIndex a xs < firstIndex b xs) (Array_from_Set xs)"
proof (induction xs rule: rev_induct)
  case Nil
  then show ?case by (simp add: Array_from_Set_Nil)
next
  case (snoc x xs)
  have old: "sorted_wrt (\<lambda>a b. firstIndex a (xs @ [x]) < firstIndex b (xs @ [x])) (Array_from_Set xs)"
    by (rule sorted_wrt_mono_rel [OF _ snoc.IH]) (simp add: set_Array_from_Set firstIndex_append)
  show ?case
  proof (cases "x \<in> set xs")
    case True
    with old show ?thesis
      by (simp add: Array_from_Set_snoc Set_add_def set_Array_from_Set)
  next
    case False
    have "firstIndex a (xs @ [x]) < firstIndex x (xs @ [x])" if "a \<in> set xs" for a
      using that False by (simp add: firstIndex_append firstIndex_new firstIndex_less)
    with old False show ?thesis
      by (simp add: Array_from_Set_snoc Set_add_def set_Array_from_Set
          sorted_wrt_append)
  qed
qed


text \<open>
  Claim C3. Whatever contexts the retrieval returned, the \<open>sources\<close> of a successful
  response hold every \<open>sourceUri\<close> of those contexts exactly once (the list is distinct
  and has the same elements), ordered by the position of their first occurrence among
  the retrieved contexts.
\<close>

theorem sources_deduplicated:
  assumes "fst (chatPost env w req) = \<lparr>status = 200, body = Answer r\<rparr>"
  shows "\<exists>ctxs. fst (retrieveFromVertexCorpus env w (chatMessage req) (VERTEX_RAG_TOP_K env) []) = Inr ctxs
           \<and> distinct (sources r)
           \<and> set (sources r) = set (map sourceUri ctxs)
           \<and> sorted_wrt (\<lambda>a b. firstIndex a (map sourceUri ctxs) < firstIndex b (map sourceUri ctxs))
                (sources r)"
proof -
  from chatPost_outcomes [of req env w] assms
  consider tr where
      "retrieveFromVertexCorpus env w (chatMessage req) (VERTEX_RAG_TOP_K env) [] = (Inr [], tr)"
      "sources r = []"
    | ctxs tr where
      "retrieveFromVertexCorpus env w (chatMessage req) (VERTEX_RAG_TOP_K env) [] = (Inr ctxs, tr)"
      "sources r = Array_from_Set (map sourceUri ctxs)"
    by (elim disjE exE conjE) auto
  then show ?thesis
  proof cases
    case 1
    then show ?thesis by simp
  next
    case 2
    then show ?thesis
      by (simp add: distinct_Array_from_Set set_Array_from_Set first_seen_order)
  qed
qed

theorem sources_deduplicated_witness:
  "distinct [''doc1.pdf'', ''unknown-source'']
     \<and> set [''doc1.pdf'', ''unknown-source''] = set [''doc1.pdf'', ''unknown-source'', ''doc1.pdf'']
     \<and> sorted_wrt (\<lambda>a b. firstIndex a [''doc1.pdf'', ''unknown-source'', ''doc1.pdf'']
                         < firstIndex b [''doc1.pdf'', ''unknown-source'', ''doc1.pdf''])
          [''doc1.pdf'', ''unknown-source'']"
proof -
  let ?W = "exampleWorld (Response 200 ''{}'' (Inr (Some (Some exampleItems))))
                    (Response 200 ''{}'' (Inr (Some [Some (Some [Some ''Twice weekly.''])])))"
  let ?R = "\<lparr>message = Some ''hi'', history = None\<rparr>"
  let ?C = "[\<lparr>text' = ''Irrigate twice weekly.'', sourceUri = ''doc1.pdf''\<rparr>,
            \<lparr>text' = ''Mulch after planting.'', sourceUri = ''unknown-source''\<rparr>,
            \<lparr>text' = ''Water early.'', sourceUri = ''doc1.pdf''\<rparr>]"
  have h: "fst (chatPost exampleEnv ?W ?R) =
      \<lparr>status = 200, body = Answer \<lparr>answer = ''Twice weekly.'', sources = [''doc1.pdf'', ''unknown-source'']\<rparr>\<rparr>"
    by code_simp
  have c: "fst (retrieveFromVertexCorpus exampleEnv ?W (chatMessage ?R) (VERTEX_RAG_TOP_K exampleEnv) [])
     = Inr ?C"
    by code_simp
  from sources_deduplicated [OF h] obtain ctxs where
    r: "fst (retrieveFromVertexCorpus exampleEnv ?W (chatMessage ?R) (VERTEX_RAG_TOP_K exampleEnv) []) = Inr ctxs"
    and d: "distinct (sources \<lparr>answer = ''Twice weekly.'', sources = [''doc1.pdf'', ''unknown-source'']\<rparr>)"
    and e: "set (sources \<lparr>answer = ''Twice weekly.'', sources = [''doc1.pdf'', ''unknown-source'']\<rparr>)
            = set (map sourceUri ctxs)"
    and o: "sorted_wrt (\<lambda>a b. firstIndex a (map sourceUri ctxs) < firstIndex b (map sourceUri ctxs))
             (sources \<lparr>answer = ''Twice weekly.'', sources = [''doc1.pdf'', ''unknown-source'']\<rparr>)"
    by blast
  from r c have "ctxs = ?C" by (simp only: sum.inject)
  then have m: "map sourceUri ctxs = [''doc1.pdf'', ''unknown-source'', ''doc1.pdf'']"
    by simp
  from d e o show ?thesis
    unfolding m by (simp only: ChatResponse.select_convs simp_thms)
qed

subsection \<open>Failures of the upstream calls\<close>

lemma isRetrieveCallE: "isRetrieveCall c \<Longrightarrow> \<exists>r. c = RetrieveCall r"
  by (cases c) simp_all

lemma isGenerateCallE: "isGenerateCall c \<Longrightarrow> \<exists>g. c = GenerateCall g"
  by (cases c) simp_all

text \<open>
  Claim C5. When the retrieval call made for a request came back with a non-success
  status, the handler answers with status 500 and an error body whose text carries
  that status and the text of the upstream response; the trace is the token request and
  that one retrieval call (no second attempt, no generation). When the generation call
  came back with a non-success status, the handler answers 500 in the same way, after
  exactly one retrieval call and one generation call.
\<close>

theorem upstream_failure_aborts:
  "(RetrieveCall r \<in> set (snd (chatPost env w req)) \<and>
      fetch_retrieve w r = Response st details json \<and> \<not> ok st \<longrightarrow>
      chatPost env w req =
        (\<lparr>status = 500,
          body = ErrorBody (''Vertex retrieveContexts failed: '' @ toString st @ '' '' @ details)\<rparr>,
         [TokenCall, RetrieveCall r]))
   \<and> (GenerateCall g \<in> set (snd (chatPost env w req)) \<and>
      fetch_generate w g = Response st' details' json' \<and> \<not> ok st' \<longrightarrow>
      (\<exists>r'. chatPost env w req =
        (\<lparr>status = 500,
          body = ErrorBody (''Vertex generateContent failed: '' @ toString st' @ '' '' @ details')\<rparr>,
         [TokenCall, RetrieveCall r', TokenCall, GenerateCall g])))"
proof -
  have A: "chatPost env w req =
        (\<lparr>status = 500,
          body = ErrorBody (''Vertex retrieveContexts failed: '' @ toString st @ '' '' @ details)\<rparr>,
         [TokenCall, RetrieveCall r])"
    if c: "RetrieveCall r \<in> set (snd (chatPost env w req))"
      and f: "fetch_retrieve w r = Response st details json"
      and n: "\<not> ok st"
  proof -
    from chatPost_outcomes [of req env w] show ?thesis
    proof (elim disjE exE conjE)
      assume "chatPost env w req = (\<lparr>status = 400, body = ErrorBody ''message is required''\<rparr>, [])"
      with c show ?thesis by simp
    next
      fix e tr
      assume rt: "retrieveFromVertexCorpus env w (chatMessage req) (VERTEX_RAG_TOP_K env) [] = (Inl e, tr)"
        and p: "chatPost env w req = (\<lparr>status = 500, body = ErrorBody (case e of Error m \<Rightarrow> m | NonError \<Rightarrow> ''unknown error'')\<rparr>, tr)"
      from retrieve_Inl [OF rt] c f n p show ?thesis by auto
    next
      fix tr
      assume rt: "retrieveFromVertexCorpus env w (chatMessage req) (VERTEX_RAG_TOP_K env) [] = (Inr [], tr)"
        and p: "chatPost env w req =
          (\<lparr>status = 200, body = Answer \<lparr>answer = noContextMessage, sources = []\<rparr>\<rparr>, tr)"
      from retrieve_Inr [OF rt] c f n p show ?thesis by auto
    next
      fix ctxs tr e tr'
      assume rt: "retrieveFromVertexCorpus env w (chatMessage req) (VERTEX_RAG_TOP_K env) [] = (Inr ctxs, tr)"
        and ge: "generateWithVertex env w (chatMessage req) (chatHistory req)
          (join blankLine (map chunkLine (enumerate 0 ctxs))) tr = (Inl e, tr')"
        and p: "chatPost env w req = (\<lparr>status = 500, body = ErrorBody (case e of Error m \<Rightarrow> m | NonError \<Rightarrow> ''unknown error'')\<rparr>, tr')"
      from retrieve_Inr [OF rt] generate_Inl [OF ge] c f n p show ?thesis by auto
    next
      fix ctxs tr a tr'
      assume rt: "retrieveFromVertexCorpus env w (chatMessage req) (VERTEX_RAG_TOP_K env) [] = (Inr ctxs, tr)"
        and ge: "generateWithVertex env w (chatMessage req) (chatHistory req)
          (join blankLine (map chunkLine (enumerate 0 ctxs))) tr = (Inr a, tr')"
        and p: "chatPost env w req =
          (\<lparr>status = 200,
            body = Answer \<lparr>answer = a, sources = Array_from_Set (map sourceUri ctxs)\<rparr>\<rparr>, tr')"
      from retrieve_Inr [OF rt] generate_Inr [OF ge] c f n p show ?thesis by auto
    qed
  qed
  have B: "\<exists>r'. chatPost env w req =
        (\<lparr>status = 500,
          body = ErrorBody (''Vertex generateContent failed: '' @ toString st' @ '' '' @ details')\<rparr>,
         [TokenCall, RetrieveCall r', TokenCall, GenerateCall g])"
    if c: "GenerateCall g \<in> set (snd (chatPost env w req))"
      and f: "fetch_generate w g = Response st' details' json'"
      and n: "\<not> ok st'"
  proof -
    from chatPost_outcomes [of req env w] show ?thesis
    proof (elim disjE exE conjE)
      assume "chatPost env w req = (\<lparr>status = 400, body = ErrorBody ''message is required''\<rparr>, [])"
      with c show ?thesis by simp
    next
      fix e tr
      assume rt: "retrieveFromVertexCorpus env w (chatMessage req) (VERTEX_RAG_TOP_K env) [] = (Inl e, tr)"
        and p: "chatPost env w req = (\<lparr>status = 500, body = ErrorBody (case e of Error m \<Rightarrow> m | NonError \<Rightarrow> ''unknown error'')\<rparr>, tr)"
      from retrieve_Inl [OF rt] c f n p show ?thesis by auto
    next
      fix tr
      assume rt: "retrieveFromVertexCorpus env w (chatMessage req) (VERTEX_RAG_TOP_K env) [] = (Inr [], tr)"
        and p: "chatPost env w req =
          (\<lparr>status = 200, body = Answer \<lparr>answer = noContextMessage, sources = []\<rparr>\<rparr>, tr)"
      from retrieve_Inr [OF rt] c f n p show ?thesis by auto
    next
      fix ctxs tr e tr'
      assume rt: "retrieveFromVertexCorpus env w (chatMessage req) (VERTEX_RAG_TOP_K env) [] = (Inr ctxs, tr)"
        and ge: "generateWithVertex env w (chatMessage req) (chatHistory req)
          (join blankLine (map chunkLine (enumerate 0 ctxs))) tr = (Inl e, tr')"
        and p: "chatPost env w req = (\<lparr>status = 500, body = ErrorBody (case e of Error m \<Rightarrow> m | NonError \<Rightarrow> ''unknown error'')\<rparr>, tr')"
      from retrieve_Inr [OF rt] generate_Inl [OF ge] c f n p show ?thesis by auto
    next
      fix ctxs tr a tr'
      assume rt: "retrieveFromVertexCorpus env w (chatMessage req) (VERTEX_RAG_TOP_K env) [] = (Inr ctxs, tr)"
        and ge: "generateWithVertex env w (chatMessage req) (chatHistory req)
          (join blankLine (map chunkLine (enumerate 0 ctxs))) tr = (Inr a, tr')"
        and p: "chatPost env w req =
          (\<lparr>status = 200,
            body = Answer \<lparr>answer = a, sources = Array_from_Set (map sourceUri ctxs)\<rparr>\<rparr>, tr')"
      from retrieve_Inr [OF rt] generate_Inr [OF ge] c f n p show ?thesis by auto
    qed
  qed
  from A B show ?thesis by blast
qed


theorem upstream_failure_aborts_witness:
  "fst (chatPost exampleEnv
          (exampleWorld (Response 404 ''not found'' (Inl NonError)) (Rejected NonError))
          \<lparr>message = Some ''hi'', history = None\<rparr>)
     = \<lparr>status = 500, body = ErrorBody ''Vertex retrieveContexts failed: 404 not found''\<rparr>
   \<and> length (snd (chatPost exampleEnv
          (exampleWorld (Response 404 ''not found'' (Inl NonError)) (Rejected NonError))
          \<lparr>message = Some ''hi'', history = None\<rparr>)) = 2
   \<and> fst (chatPost exampleEnv
          (exampleWorld (Response 200 ''{}'' (Inr (Some (Some exampleItems))))
                        (Response 503 ''busy'' (Inl NonError)))
          \<lparr>message = Some ''hi'', history = None\<rparr>)
     = \<lparr>status = 500, body = ErrorBody ''Vertex generateContent failed: 503 busy''\<rparr>
   \<and> length (snd (chatPost exampleEnv
          (exampleWorld (Response 200 ''{}'' (Inr (Some (Some exampleItems))))
                        (Response 503 ''busy'' (Inl NonError)))
          \<lparr>message = Some ''hi'', history = None\<rparr>)) = 4"
proof -
  let ?W1 = "exampleWorld (Response 404 ''not found'' (Inl NonError)) (Rejected NonError)"
  let ?W2 = "exampleWorld (Response 200 ''{}'' (Inr (Some (Some exampleItems))))
                        (Response 503 ''busy'' (Inl NonError))"
  let ?R = "\<lparr>message = Some ''hi'', history = None\<rparr>"
  have "list_ex isRetrieveCall (snd (chatPost exampleEnv ?W1 ?R))"
    by code_simp
  then obtain r where r: "RetrieveCall r \<in> set (snd (chatPost exampleEnv ?W1 ?R))"
    by (auto simp: list_ex_iff dest: isRetrieveCallE)
  have fr: "fetch_retrieve ?W1 r = Response 404 ''not found'' (Inl NonError)"
    by (simp add: exampleWorld_def)
  have "list_ex isGenerateCall (snd (chatPost exampleEnv ?W2 ?R))"
    by code_simp
  then obtain g where g: "GenerateCall g \<in> set (snd (chatPost exampleEnv ?W2 ?R))"
    by (auto simp: list_ex_iff dest: isGenerateCallE)
  have fg: "fetch_generate ?W2 g = Response 503 ''busy'' (Inl NonError)"
    by (simp add: exampleWorld_def)
  have n: "\<not> ok 404" "\<not> ok 503"
    by (simp_all add: ok_def)
  have t: "toString 404 = ''404''" "toString 503 = ''503''"
    by code_simp+
  from upstream_failure_aborts [of r exampleEnv ?W1 ?R 404 "''not found''" "Inl NonError"] r fr n(1)
  have 1: "chatPost exampleEnv ?W1 ?R =
        (\<lparr>status = 500,
          body = ErrorBody (''Vertex retrieveContexts failed: '' @ toString 404 @ '' '' @ ''not found'')\<rparr>,
         [TokenCall, RetrieveCall r])"
    by blast
  from upstream_failure_aborts [of _ exampleEnv ?W2 ?R _ _ _ g 503 "''busy''" "Inl NonError"] g fg n(2)
  obtain r' where 2: "chatPost exampleEnv ?W2 ?R =
        (\<lparr>status = 500,
          body = ErrorBody (''Vertex generateContent failed: '' @ toString 503 @ '' '' @ ''busy'')\<rparr>,
         [TokenCall, RetrieveCall r', TokenCall, GenerateCall g])"
    by blast
  show ?thesis
    unfolding 1 2 t by simp
qed

subsection \<open>The history is cut to its last eight turns\<close>





subsection \<open>Mapping of the retrieval payload\<close>

text \<open>
  Claim C9. An item of the retrieval payload without a \<open>sourceUri\<close> is mapped to a
  context whose \<open>sourceUri\<close> is \<open>unknown-source\<close>; a \<open>sourceUri\<close> that is present is
  trimmed and nothing else. The items kept are those whose text is present and is not
  empty after trimming, in their order, so every context has a non-empty text. There is
  a run of the handler whose response has status 200 and lists \<open>unknown-source\<close> among
  its sources.
\<close>

theorem unknown_source_mapping:
  "(item_sourceUri item = None \<longrightarrow> sourceUri (mapItem item) = ''unknown-source'')
   \<and> (item_sourceUri item = Some u \<longrightarrow> sourceUri (mapItem item) = trim u)
   \<and> mapContexts (Some (Some items)) =
       map mapItem (filter (\<lambda>i. case item_text i of None \<Rightarrow> False | Some t \<Rightarrow> trim t \<noteq> []) items)
   \<and> (\<forall>c \<in> set (mapContexts (Some (Some items))). text' c \<noteq> [])
   \<and> (\<exists>env w req r. fst (chatPost env w req) = \<lparr>status = 200, body = Answer r\<rparr>
         \<and> ''unknown-source'' \<in> set (sources r))"
proof -
  have 1: "item_sourceUri item = None \<longrightarrow> sourceUri (mapItem item) = ''unknown-source''"
    by (simp add: mapItem_def)
  have 2: "item_sourceUri item = Some u \<longrightarrow> sourceUri (mapItem item) = trim u"
    by (simp add: mapItem_def)
  have 3: "mapContexts (Some (Some items)) =
       map mapItem (filter (\<lambda>i. case item_text i of None \<Rightarrow> False | Some t \<Rightarrow> trim t \<noteq> []) items)"
    by (induction items) (auto simp: mapContexts_def mapItem_def split: option.splits)
  have 4: "\<forall>c \<in> set (mapContexts (Some (Some items))). text' c \<noteq> []"
    by (auto simp: mapContexts_def)
  have "fst (chatPost exampleEnv
          (exampleWorld (Response 200 ''{}'' (Inr (Some (Some exampleItems))))
                        (Response 200 ''{}'' (Inr (Some [Some (Some [Some ''Twice weekly.''])]))))
          \<lparr>message = Some ''hi'', history = None\<rparr>) =
      \<lparr>status = 200, body = Answer \<lparr>answer = ''Twice weekly.'', sources = [''doc1.pdf'', ''unknown-source'']\<rparr>\<rparr>"
    by code_simp
  then have 5: "\<exists>env w req r. fst (chatPost env w req) = \<lparr>status = 200, body = Answer r\<rparr>
         \<and> ''unknown-source'' \<in> set (sources r)"
    by (intro exI [where x = "\<lparr>answer = ''Twice weekly.'', sources = [''doc1.pdf'', ''unknown-source'']\<rparr>"] exI conjI, assumption) simp
  from 1 2 3 4 5 show ?thesis by blast
qed

theorem unknown_source_mapping_witness:
  "sourceUri (mapItem \<lparr>item_text = Some ''Mulch after planting.'', item_sourceUri = None\<rparr>) = ''unknown-source''
   \<and> sourceUri (mapItem \<lparr>item_text = Some '' Irrigate twice weekly. '', item_sourceUri = Some ''doc1.pdf ''\<rparr>) = ''doc1.pdf''
   \<and> mapContexts (Some (Some exampleItems)) =
       [\<lparr>text' = ''Irrigate twice weekly.'', sourceUri = ''doc1.pdf''\<rparr>,
        \<lparr>text' = ''Mulch after planting.'', sourceUri = ''unknown-source''\<rparr>,
        \<lparr>text' = ''Water early.'', sourceUri = ''doc1.pdf''\<rparr>]"
proof -
  have t: "trim ''doc1.pdf '' = ''doc1.pdf''" by code_simp
  have f: "map mapItem (filter (\<lambda>i. case item_text i of None \<Rightarrow> False | Some t \<Rightarrow> trim t \<noteq> []) exampleItems)
     = [\<lparr>text' = ''Irrigate twice weekly.'', sourceUri = ''doc1.pdf''\<rparr>,
        \<lparr>text' = ''Mulch after planting.'', sourceUri = ''unknown-source''\<rparr>,
        \<lparr>text' = ''Water early.'', sourceUri = ''doc1.pdf''\<rparr>]"
    by code_simp
  from unknown_source_mapping [of "\<lparr>item_text = Some ''Mulch after planting.'', item_sourceUri = None\<rparr>" u exampleItems for u]
    unknown_source_mapping [of "\<lparr>item_text = Some '' Irrigate twice weekly. '', item_sourceUri = Some ''doc1.pdf ''\<rparr>" "''doc1.pdf ''" exampleItems]
    t f
  show ?thesis by simp
qed

subsection \<open>The extractive answer\<close>

lemma slice_prefix: "slice 0 (Some (int n)) xs = take n xs"
  by (simp add: slice_def relativeIndex_def Let_def min_def)

lemma length_trim_le: "length (trim s) \<le> length s"
proof -
  have "length (trim s) \<le> length (dropWhile isWhiteSpace s)"
    unfolding trim_def
    using length_dropWhile_le [of isWhiteSpace "rev (dropWhile isWhiteSpace s)"] by simp
  also have "\<dots> \<le> length s"
    by (rule length_dropWhile_le)
  finally show ?thesis .
qed

lemma trim_unchanged:
  assumes "s = [] \<or> (\<not> isWhiteSpace (hd s) \<and> \<not> isWhiteSpace (last s))"
  shows "trim s = s"
proof (cases "s = []")
  case True
  then show ?thesis by (simp add: trim_def)
next
  case False
  with assms have h: "\<not> isWhiteSpace (hd s)" and l: "\<not> isWhiteSpace (last s)"
    by auto
  from False h have 1: "dropWhile isWhiteSpace s = s"
    by (cases s) auto
  from False l have 2: "dropWhile isWhiteSpace (rev s) = rev s"
    by (cases "rev s") (auto simp: last_rev [symmetric] hd_rev)
  show ?thesis
    by (simp add: trim_def 1 2)
qed

lemma preview_lines:
  "map previewLine (enumerate 0 ctxs) = numberedSnippets (\<lambda>t. trim (truncate280 t)) ctxs"
proof (rule nth_equalityI)
  show "length (map previewLine (enumerate 0 ctxs))
      = length (numberedSnippets (\<lambda>t. trim (truncate280 t)) ctxs)"
    by (simp add: numberedSnippets_def)
next
  fix i
  assume "i < length (map previewLine (enumerate 0 ctxs))"
  then have i: "i < length ctxs" by simp
  have s: "slice 0 (Some 280) (text' (ctxs ! i)) = take 280 (text' (ctxs ! i))"
    using slice_prefix [of 280 "text' (ctxs ! i)"] by simp
  from i show "map previewLine (enumerate 0 ctxs) ! i
      = numberedSnippets (\<lambda>t. trim (truncate280 t)) ctxs ! i"
    by (simp add: numberedSnippets_def previewLine_def truncate280_def nth_enumerate_eq s)
qed

lemma numberedSnippets_cong:
  assumes "\<And>c. c \<in> set ctxs \<Longrightarrow> f (text' c) = g (text' c)"
  shows "numberedSnippets f ctxs = numberedSnippets g ctxs"
  using assms by (simp add: numberedSnippets_def)


text \<open>
  Claim C7 reads: for a non-empty list of contexts the extractive answer is
  \<open>Question: <q>\<close>, the notice, and one snippet per context numbered \<open>(i)\<close>, the
  context text truncated to at most 280 characters and followed by an ellipsis. The
  function trims the truncated text as well, so on a text with leading white space, or
  with white space where the cut falls, it differs from the template with plain
  truncation.
\<close>

theorem fallback_template_counterexample:
  "fallbackAnswer ''q'' [\<lparr>text' = '' a'', sourceUri = ''u''\<rparr>]
     = ''Question: q'' @ blankLine @ noModelNotice @ blankLine @ ''(1) a...''
   \<and> fallbackTemplate truncate280 ''q'' [\<lparr>text' = '' a'', sourceUri = ''u''\<rparr>]
     = ''Question: q'' @ blankLine @ noModelNotice @ blankLine @ ''(1)  a...''
   \<and> fallbackAnswer ''q'' [\<lparr>text' = '' a'', sourceUri = ''u''\<rparr>]
     \<noteq> fallbackTemplate truncate280 ''q'' [\<lparr>text' = '' a'', sourceUri = ''u''\<rparr>]
   \<and> fallbackAnswer ''q'' [\<lparr>text' = replicate 279 CHR ''a'' @ '' b'', sourceUri = ''u''\<rparr>]
     \<noteq> fallbackTemplate truncate280 ''q'' [\<lparr>text' = replicate 279 CHR ''a'' @ '' b'', sourceUri = ''u''\<rparr>]"
  by code_simp

text \<open>
  Claim C7, as amended. For every question and every non-empty list of contexts,
  \<open>fallbackAnswer\<close> is \<open>Question: <q>\<close>, the notice and one snippet per context,
  separated by blank lines; snippet \<open>i\<close> (from 1) is \<open>(i)\<close>, a space, the first 280
  characters of the context text with the white space at both ends removed, and
  \<open>...\<close>. The text of a snippet has at most 280 characters, and the answer is the
  template with plain truncation whenever no truncated text starts or ends with white
  space.
\<close>

theorem fallback_template:
  assumes "ctxs \<noteq> []"
  shows "fallbackAnswer q ctxs = fallbackTemplate (\<lambda>t. trim (truncate280 t)) q ctxs
    \<and> (\<forall>c \<in> set ctxs. length (trim (truncate280 (text' c))) \<le> 280)
    \<and> ((\<forall>c \<in> set ctxs. truncate280 (text' c) = [] \<or>
           (\<not> isWhiteSpace (hd (truncate280 (text' c))) \<and>
            \<not> isWhiteSpace (last (truncate280 (text' c)))))
        \<longrightarrow> fallbackAnswer q ctxs = fallbackTemplate truncate280 q ctxs)"
proof -
  have 1: "fallbackAnswer q ctxs = fallbackTemplate (\<lambda>t. trim (truncate280 t)) q ctxs"
    using assms by (simp add: fallbackAnswer_def fallbackTemplate_def preview_lines)
  have 2: "length (trim (truncate280 (text' c))) \<le> 280" for c
  proof -
    have "length (trim (truncate280 (text' c))) \<le> length (truncate280 (text' c))"
      by (rule length_trim_le)
    also have "\<dots> \<le> 280"
      by (simp add: truncate280_def)
    finally show ?thesis .
  qed
  have 3: "fallbackAnswer q ctxs = fallbackTemplate truncate280 q ctxs"
    if "\<forall>c \<in> set ctxs. truncate280 (text' c) = [] \<or>
           (\<not> isWhiteSpace (hd (truncate280 (text' c))) \<and>
            \<not> isWhiteSpace (last (truncate280 (text' c))))"
  proof -
    have "numberedSnippets (\<lambda>t. trim (truncate280 t)) ctxs = numberedSnippets truncate280 ctxs"
      by (rule numberedSnippets_cong) (use that in \<open>simp add: trim_unchanged\<close>)
    with 1 show ?thesis
      by (simp add: fallbackTemplate_def)
  qed
  from 1 2 3 show ?thesis by blast
qed

theorem fallback_template_witness:
  "fallbackAnswer ''When to irrigate?''
      [\<lparr>text' = ''Irrigate twice weekly.'', sourceUri = ''doc1.pdf''\<rparr>,
       \<lparr>text' = ''Mulch after planting.'', sourceUri = ''unknown-source''\<rparr>]
     = ''Question: When to irrigate?'' @ blankLine @ noModelNotice @ blankLine
       @ ''(1) Irrigate twice weekly....'' @ blankLine @ ''(2) Mulch after planting....''"
proof -
  let ?C = "[\<lparr>text' = ''Irrigate twice weekly.'', sourceUri = ''doc1.pdf''\<rparr>,
       \<lparr>text' = ''Mulch after planting.'', sourceUri = ''unknown-source''\<rparr>]"
  have n: "?C \<noteq> []" by simp
  have t: "fallbackTemplate (\<lambda>t. trim (truncate280 t)) ''When to irrigate?'' ?C
     = ''Question: When to irrigate?'' @ blankLine @ noModelNotice @ blankLine
       @ ''(1) Irrigate twice weekly....'' @ blankLine @ ''(2) Mulch after planting....''"
    by code_simp
  from fallback_template [OF n, of "''When to irrigate?''"] t show ?thesis
    by (simp only:)
qed

subsection \<open>The configured retrieval count\<close>








subsection \<open>The chat surface releases what a submission acquired\<close>

lemma settle_releases:
  "\<not> loading (onSubmit_settle st outcome uid) \<and> abortRef (onSubmit_settle st outcome uid) = None"
  by (simp add: onSubmit_settle_def Let_def split: sum.splits)

lemma start_acquires:
  assumes "onSubmit_start st uid = Some (st1, req)"
  shows "loading st1 \<and> abortRef st1 = Some \<lparr>aborted = False\<rparr> \<and> \<not> loading st \<and> trim (input st) \<noteq> []"
  using assms by (auto simp: onSubmit_start_def Let_def split: if_splits)

lemma start_rejected_while_loading: "loading st \<Longrightarrow> onSubmit_start st uid = None"
  by (simp add: onSubmit_start_def Let_def)

lemma ui_step_in_flight:
  assumes "loading st \<and> abortRef st \<noteq> None"
  shows "loading (ui_step st ev) \<and> abortRef (ui_step st ev) \<noteq> None"
  using assms
  by (cases ev) (auto simp: onStop_def start_rejected_while_loading split: option.splits)

lemma events_in_flight:
  assumes "loading st \<and> abortRef st \<noteq> None"
  shows "loading (foldl ui_step st evs) \<and> abortRef (foldl ui_step st evs) \<noteq> None"
  using assms
proof (induction evs arbitrary: st)
  case Nil
  then show ?case by simp
next
  case (Cons ev evs)
  from ui_step_in_flight [OF Cons.prems] show ?case
    by (simp add: Cons.IH)
qed

text \<open>
  Claim C8. A submission that passes the guard sets the loading flag and stores a
  controller, and both stay in place while the request is in flight, whatever the user
  types or presses. However the request ends (an answer, a failure status, a body that
  does not parse, a network error or a cancellation), the submission ends with the
  loading flag cleared and the controller reference reset to null. Started from a state
  with no request in flight, every path through \<open>onSubmit\<close> (the early return of the
  guard included) ends in such a state.
\<close>

theorem submission_releases:
  "(onSubmit_start st uid1 = Some (st1, req) \<longrightarrow>
      loading st1 \<and> abortRef st1 \<noteq> None
      \<and> loading (foldl ui_step st1 evs) \<and> abortRef (foldl ui_step st1 evs) \<noteq> None
      \<and> onSubmit st uid1 uid2 evs outcome = onSubmit_settle (foldl ui_step st1 evs) outcome uid2
      \<and> \<not> loading (onSubmit st uid1 uid2 evs outcome)
      \<and> abortRef (onSubmit st uid1 uid2 evs outcome) = None)
   \<and> (\<not> loading st \<and> abortRef st = None \<longrightarrow>
      \<not> loading (onSubmit st uid1 uid2 evs outcome)
      \<and> abortRef (onSubmit st uid1 uid2 evs outcome) = None)
   \<and> \<not> loading (onSubmit_settle st' outcome uid2)
   \<and> abortRef (onSubmit_settle st' outcome uid2) = None"
proof -
  have A: "loading st1 \<and> abortRef st1 \<noteq> None
      \<and> loading (foldl ui_step st1 evs) \<and> abortRef (foldl ui_step st1 evs) \<noteq> None
      \<and> onSubmit st uid1 uid2 evs outcome = onSubmit_settle (foldl ui_step st1 evs) outcome uid2
      \<and> \<not> loading (onSubmit st uid1 uid2 evs outcome)
      \<and> abortRef (onSubmit st uid1 uid2 evs outcome) = None"
    if s: "onSubmit_start st uid1 = Some (st1, req)"
  proof -
    from start_acquires [OF s] have acq: "loading st1 \<and> abortRef st1 \<noteq> None"
      by simp
    have run: "onSubmit st uid1 uid2 evs outcome = onSubmit_settle (foldl ui_step st1 evs) outcome uid2"
      by (simp add: onSubmit_def s)
    from acq events_in_flight [OF acq] run settle_releases show ?thesis
      by simp
  qed
  have B: "\<not> loading (onSubmit st uid1 uid2 evs outcome)
      \<and> abortRef (onSubmit st uid1 uid2 evs outcome) = None"
    if idle: "\<not> loading st \<and> abortRef st = None"
  proof (cases "onSubmit_start st uid1")
    case None
    with idle show ?thesis by (simp add: onSubmit_def)
  next
    case (Some p)
    then show ?thesis
      by (cases p) (simp add: onSubmit_def settle_releases)
  qed
  from A B settle_releases show ?thesis by blast
qed

theorem submission_releases_witness:
  "loading (fst (the (onSubmit_start exampleState ''u1'')))
   \<and> abortRef (fst (the (onSubmit_start exampleState ''u1''))) = Some \<lparr>aborted = False\<rparr>
   \<and> abortRef (foldl ui_step (fst (the (onSubmit_start exampleState ''u1''))) [Typed ''x'', Stop, Submit ''u3''])
       = Some \<lparr>aborted = True\<rparr>
   \<and> \<not> loading (onSubmit exampleState ''u1'' ''u2'' [Typed ''x'', Stop, Submit ''u3'']
                   (Rejected (Error ''The user aborted a request.'')))
   \<and> abortRef (onSubmit exampleState ''u1'' ''u2'' [Typed ''x'', Stop, Submit ''u3'']
                   (Rejected (Error ''The user aborted a request.''))) = None
   \<and> \<not> loading (onSubmit exampleState ''u1'' ''u2'' []
                   (Response 200 ''{}'' (Inr \<lparr>answer = ''Twice weekly.'', sources = [''doc1.pdf'']\<rparr>)))
   \<and> \<not> loading (onSubmit exampleState ''u1'' ''u2'' [] (Response 500 ''{}'' (Inl NonError)))"
proof -
  have "onSubmit_start exampleState ''u1'' \<noteq> None"
    by code_simp
  then obtain st1 req where s: "onSubmit_start exampleState ''u1'' = Some (st1, req)"
    by (cases "onSubmit_start exampleState ''u1''") auto
  have i: "\<not> loading exampleState \<and> abortRef exampleState = None"
    by (simp add: exampleState_def)
  have a: "abortRef (fst (the (onSubmit_start exampleState ''u1''))) = Some \<lparr>aborted = False\<rparr>"
    "abortRef (foldl ui_step (fst (the (onSubmit_start exampleState ''u1''))) [Typed ''x'', Stop, Submit ''u3''])
       = Some \<lparr>aborted = True\<rparr>"
    by code_simp+
  from submission_releases [of exampleState "''u1''" st1 req "[Typed ''x'', Stop, Submit ''u3'']" "''u2''"
       "Rejected (Error ''The user aborted a request.'')"] s
  have 1: "loading (fst (the (onSubmit_start exampleState ''u1'')))"
    "\<not> loading (onSubmit exampleState ''u1'' ''u2'' [Typed ''x'', Stop, Submit ''u3'']
                   (Rejected (Error ''The user aborted a request.'')))"
    "abortRef (onSubmit exampleState ''u1'' ''u2'' [Typed ''x'', Stop, Submit ''u3'']
                   (Rejected (Error ''The user aborted a request.''))) = None"
    by simp_all
  from submission_releases [of exampleState "''u1''" _ _ "[]" "''u2''"
       "Response 200 ''{}'' (Inr \<lparr>answer = ''Twice weekly.'', sources = [''doc1.pdf'']\<rparr>)"] i
  have 2: "\<not> loading (onSubmit exampleState ''u1'' ''u2'' []
                   (Response 200 ''{}'' (Inr \<lparr>answer = ''Twice weekly.'', sources = [''doc1.pdf'']\<rparr>)))"
    by blast
  from submission_releases [of exampleState "''u1''" _ _ "[]" "''u2''" "Response 500 ''{}'' (Inl NonError)"] i
  have 3: "\<not> loading (onSubmit exampleState ''u1'' ''u2'' [] (Response 500 ''{}'' (Inl NonError)))"
    by blast
  from 1 2 3 a show ?thesis by (intro conjI)
qed

end
